theory Spec2Isabelle
  imports Complex_Main
begin

section \<open>The rating system of \<^verbatim>\<open>src/utils/utils/ratings.py\<close>\<close>

text \<open>
  The class \<^verbatim>\<open>RatingSystem\<close> keeps a dictionary of team ratings, two parameters and a
  list of the games it has processed. The embedding below follows the Python text method
  by method.

  \<^item> Ratings, \<^verbatim>\<open>k\<close> and \<^verbatim>\<open>home_adv\<close> are Python floats. The methods are embedded
    twice. The first embedding computes with real numbers, in exact arithmetic: it is
    used for what holds of the expressions of the code as they are written, whatever the
    rounding. The second one, \<open>play_game64\<close> further down, rounds every operation as
    IEEE binary64 does: it is used where the rounding decides.
  \<^item> Scores are Python integers (\<open>int\<close>); team identifiers and time stamps are strings.
  \<^item> A dictionary is a map. \<^verbatim>\<open>d.get(key, default)\<close> is \<open>dict_get\<close>; the subscript
    \<^verbatim>\<open>d[key]\<close>, which raises \<^verbatim>\<open>KeyError\<close> on a missing key, is \<open>dict_item\<close>.
  \<^item> A method that assigns to \<^verbatim>\<open>self\<close> returns the new object next to its result.
    The wall clock read by \<^verbatim>\<open>datetime.now().isoformat()\<close> is the argument \<open>now\<close>.
\<close>

datatype error = KeyError

definition dict_get :: "('a \<rightharpoonup> 'b) \<Rightarrow> 'a \<Rightarrow> 'b \<Rightarrow> 'b" where
  "dict_get d key dflt = (case d key of None \<Rightarrow> dflt | Some v \<Rightarrow> v)"

definition dict_item :: "('a \<rightharpoonup> 'b) \<Rightarrow> 'a \<Rightarrow> error + 'b" where
  "dict_item d key = (case d key of None \<Rightarrow> Inl KeyError | Some v \<Rightarrow> Inr v)"

text \<open>The dictionary \<^verbatim>\<open>game_result\<close> built by \<^verbatim>\<open>play_game\<close>, key by key.\<close>

record game_result =
  gr_timestamp :: string
  gr_home :: string
  gr_away :: string
  gr_home_score :: int
  gr_away_score :: int
  gr_home_rating_before :: real
  gr_away_rating_before :: real
  gr_home_rating_after :: real
  gr_away_rating_after :: real
  gr_expected_mov :: real
  gr_actual_mov :: int
  gr_delta_rating :: real
  gr_home_team_full :: string
  gr_away_team_full :: string

text \<open>The attributes of a \<^verbatim>\<open>RatingSystem\<close> object.\<close>

record RatingSystem =
  ratings :: "string \<rightharpoonup> real"
  team_mapping :: "string \<rightharpoonup> string"
  k :: real
  home_adv :: real
  game_history :: "game_result list"

text \<open>
  \<^verbatim>\<open>__init__\<close>. \<^verbatim>\<open>initial_ratings or {}\<close> is the empty dictionary when the argument is
  \<^verbatim>\<open>None\<close> (and also when it is an empty dictionary, which is the same value), and
  likewise for \<^verbatim>\<open>team_mapping\<close>. \<open>RatingSystem_init\<close> gives the attributes as the methods
  read them right after construction, the dictionary by its contents. Python keeps a
  reference to a non-empty dictionary it is given and \<^verbatim>\<open>play_game\<close> assigns into that
  object; the constructor with the reference is \<open>RatingSystem_new\<close> below. The defaults of
  \<^verbatim>\<open>k\<close> and \<^verbatim>\<open>home_adv\<close> are the two constants that follow.
\<close>

definition default_k :: real where
  "default_k = 0.05"

definition default_home_adv :: real where
  "default_home_adv = 2.2"

definition RatingSystem_init ::
  "(string \<rightharpoonup> real) option \<Rightarrow> (string \<rightharpoonup> string) option \<Rightarrow> real \<Rightarrow> real \<Rightarrow> RatingSystem" where
  "RatingSystem_init initial_ratings team_map kf ha =
     \<lparr> ratings = (case initial_ratings of None \<Rightarrow> Map.empty | Some m \<Rightarrow> m),
       team_mapping = (case team_map of None \<Rightarrow> Map.empty | Some m \<Rightarrow> m),
       k = kf,
       home_adv = ha,
       game_history = [] \<rparr>"

definition expected_mov :: "RatingSystem \<Rightarrow> real \<Rightarrow> real \<Rightarrow> real" where
  "expected_mov self home_rating away_rating = home_rating + home_adv self - away_rating"

definition delta_rating :: "RatingSystem \<Rightarrow> int \<Rightarrow> real \<Rightarrow> real" where
  "delta_rating self actual_mov exp_mov = k self * (real_of_int actual_mov - exp_mov)"

text \<open>
  \<^verbatim>\<open>play_game\<close>. The two assignments to \<^verbatim>\<open>self.ratings\<close> happen in the order of the
  source, the home one first. The record reads \<^verbatim>\<open>self.ratings[home]\<close> and
  \<^verbatim>\<open>self.ratings[away]\<close> back from the updated dictionary by subscript.
\<close>

definition play_game ::
  "RatingSystem \<Rightarrow> string \<Rightarrow> string \<Rightarrow> string \<Rightarrow> int \<Rightarrow> int \<Rightarrow> error + (game_result \<times> RatingSystem)" where
  "play_game self now home away home_score away_score =
     (let home_rating = dict_get (ratings self) home 0;
          away_rating = dict_get (ratings self) away 0;
          actual_mov = home_score - away_score;
          exp_mov = expected_mov self home_rating away_rating;
          dr = delta_rating self actual_mov exp_mov;
          ratings1 = (ratings self)(home \<mapsto> home_rating + dr);
          ratings2 = ratings1(away \<mapsto> away_rating - dr)
      in case dict_item ratings2 home of
           Inl e \<Rightarrow> Inl e
         | Inr home_after \<Rightarrow>
            (case dict_item ratings2 away of
               Inl e \<Rightarrow> Inl e
             | Inr away_after \<Rightarrow>
                (let game_result =
                       \<lparr> gr_timestamp = now,
                         gr_home = home,
                         gr_away = away,
                         gr_home_score = home_score,
                         gr_away_score = away_score,
                         gr_home_rating_before = home_rating,
                         gr_away_rating_before = away_rating,
                         gr_home_rating_after = home_after,
                         gr_away_rating_after = away_after,
                         gr_expected_mov = exp_mov,
                         gr_actual_mov = actual_mov,
                         gr_delta_rating = dr,
                         gr_home_team_full = dict_get (team_mapping self) home home,
                         gr_away_team_full = dict_get (team_mapping self) away away \<rparr>
                 in Inr (game_result,
                         self\<lparr> ratings := ratings2,
                               game_history := game_history self @ [game_result] \<rparr>))))"

text \<open>\<^verbatim>\<open>get_team_rating\<close> reads the dictionary and assigns nothing.\<close>

definition get_team_rating :: "RatingSystem \<Rightarrow> string \<Rightarrow> real \<times> RatingSystem" where
  "get_team_rating self team = (dict_get (ratings self) team 0, self)"






subsection \<open>Sequences of calls\<close>

text \<open>
  A caller feeds games to one engine in order, as the loops of \<^verbatim>\<open>src/app.py\<close> do. A call
  is the clock reading at that moment and the four arguments of \<^verbatim>\<open>play_game\<close>. An
  exception in one call would end the sequence.
\<close>

type_synonym game_call = "string \<times> string \<times> string \<times> int \<times> int"

fun play_games :: "RatingSystem \<Rightarrow> game_call list \<Rightarrow> error + RatingSystem" where
  "play_games self [] = Inr self"
| "play_games self ((now, home, away, home_score, away_score) # calls) =
     (case play_game self now home away home_score away_score of
        Inl e \<Rightarrow> Inl e
      | Inr (_, self') \<Rightarrow> play_games self' calls)"

text \<open>
  The sum of all ratings held in a dictionary: the exact sum of the numbers stored, not
  a sum accumulated in floats.
\<close>

definition rating_sum :: "(string \<rightharpoonup> real) \<Rightarrow> real" where
  "rating_sum m = (\<Sum>team \<in> dom m. the (m team))"

subsection \<open>The arithmetic of Python floats\<close>

text \<open>
  A Python float is an IEEE binary64 number, and \<^verbatim>\<open>+\<close>, \<^verbatim>\<open>-\<close> and \<^verbatim>\<open>*\<close> return the
  double nearest to the exact result, a tie going to the even significand. A finite
  double is taken here as the real number it denotes (the two zeros are one number).
  \<open>round64 x\<close> is the nearest number with a significand of 53 bits, or the nearest
  multiple of \<open>2 powi (- 1074)\<close> below the normal range, with no bound on the exponent
  from above. An operation returns \<open>round64\<close> of its exact result when that is below
  \<open>2 ^ 1024\<close> in magnitude. Otherwise the code goes on with an infinity, and later with
  NaN, which this embedding does not follow: it stops with \<open>Non_finite\<close>. Converting an
  \<^verbatim>\<open>int\<close> that is out of the range of a double raises \<^verbatim>\<open>OverflowError\<close>.
\<close>

definition round_half_even :: "real \<Rightarrow> int" where
  "round_half_even y =
     (let n = \<lfloor>y\<rfloor>; f = y - of_int n
      in if f < 1/2 then n else if 1/2 < f then n + 1 else if even n then n else n + 1)"

definition ulp_exponent :: "real \<Rightarrow> int" where
  "ulp_exponent x = max (\<lfloor>log 2 \<bar>x\<bar>\<rfloor> - 52) (- 1074)"

definition round64 :: "real \<Rightarrow> real" where
  "round64 x =
     (if x = 0 then 0
      else of_int (round_half_even (x / 2 powi ulp_exponent x)) * 2 powi ulp_exponent x)"

datatype exit64 = Raise_KeyError | Raise_OverflowError | Non_finite

definition and_then :: "exit64 + 'a \<Rightarrow> ('a \<Rightarrow> exit64 + 'b) \<Rightarrow> exit64 + 'b" where
  "and_then x f = (case x of Inl e \<Rightarrow> Inl e | Inr v \<Rightarrow> f v)"

definition to_double :: "real \<Rightarrow> exit64 + real" where
  "to_double x = (if \<bar>round64 x\<bar> < 2 ^ 1024 then Inr (round64 x) else Inl Non_finite)"

definition float_of_int :: "int \<Rightarrow> exit64 + real" where
  "float_of_int n =
     (if \<bar>round64 (real_of_int n)\<bar> < 2 ^ 1024 then Inr (round64 (real_of_int n))
      else Inl Raise_OverflowError)"

definition item64 :: "('a \<rightharpoonup> 'b) \<Rightarrow> 'a \<Rightarrow> exit64 + 'b" where
  "item64 d key = (case d key of None \<Rightarrow> Inl Raise_KeyError | Some v \<Rightarrow> Inr v)"

text \<open>
  \<^verbatim>\<open>expected_mov\<close>, \<^verbatim>\<open>delta_rating\<close> and \<^verbatim>\<open>play_game\<close> once more, operation by
  operation in the order Python evaluates them. The subtraction
  \<^verbatim>\<open>actual_mov - expected_mov\<close> converts the integer margin to a float first.
\<close>

definition expected_mov64 :: "RatingSystem \<Rightarrow> real \<Rightarrow> real \<Rightarrow> exit64 + real" where
  "expected_mov64 self home_rating away_rating =
     and_then (to_double (home_rating + home_adv self)) (\<lambda>s.
     to_double (s - away_rating))"

definition delta_rating64 :: "RatingSystem \<Rightarrow> int \<Rightarrow> real \<Rightarrow> exit64 + real" where
  "delta_rating64 self actual_mov exp_mov =
     and_then (float_of_int actual_mov) (\<lambda>a.
     and_then (to_double (a - exp_mov)) (\<lambda>surprise.
     to_double (k self * surprise)))"

definition play_game64 ::
  "RatingSystem \<Rightarrow> string \<Rightarrow> string \<Rightarrow> string \<Rightarrow> int \<Rightarrow> int \<Rightarrow> exit64 + (game_result \<times> RatingSystem)" where
  "play_game64 self now home away home_score away_score =
     (let home_rating = dict_get (ratings self) home 0;
          away_rating = dict_get (ratings self) away 0;
          actual_mov = home_score - away_score
      in and_then (expected_mov64 self home_rating away_rating) (\<lambda>exp_mov.
         and_then (delta_rating64 self actual_mov exp_mov) (\<lambda>dr.
         and_then (to_double (home_rating + dr)) (\<lambda>new_home.
         and_then (to_double (away_rating - dr)) (\<lambda>new_away.
           (let ratings1 = (ratings self)(home \<mapsto> new_home);
                ratings2 = ratings1(away \<mapsto> new_away)
            in and_then (item64 ratings2 home) (\<lambda>home_after.
               and_then (item64 ratings2 away) (\<lambda>away_after.
                 (let game_result =
                        \<lparr> gr_timestamp = now,
                          gr_home = home,
                          gr_away = away,
                          gr_home_score = home_score,
                          gr_away_score = away_score,
                          gr_home_rating_before = home_rating,
                          gr_away_rating_before = away_rating,
                          gr_home_rating_after = home_after,
                          gr_away_rating_after = away_after,
                          gr_expected_mov = exp_mov,
                          gr_actual_mov = actual_mov,
                          gr_delta_rating = dr,
                          gr_home_team_full = dict_get (team_mapping self) home home,
                          gr_away_team_full = dict_get (team_mapping self) away away \<rparr>
                  in Inr (game_result,
                          self\<lparr> ratings := ratings2,
                                game_history := game_history self @ [game_result] \<rparr>))))))))))"

fun play_games64 :: "RatingSystem \<Rightarrow> game_call list \<Rightarrow> exit64 + RatingSystem" where
  "play_games64 self [] = Inr self"
| "play_games64 self ((now, home, away, home_score, away_score) # calls) =
     (case play_game64 self now home away home_score away_score of
        Inl e \<Rightarrow> Inl e
      | Inr (_, self') \<Rightarrow> play_games64 self' calls)"

text \<open>
  What the two assignments of one game can add to or take from the sum of the ratings by
  rounding: half a unit in the last place of each of the two new ratings.
\<close>

definition rounding_allowance :: "game_result \<Rightarrow> real" where
  "rounding_allowance r =
     2 powi (- 53) * (\<bar>gr_home_rating_before r + gr_delta_rating r\<bar>
                      + \<bar>gr_away_rating_before r - gr_delta_rating r\<bar>)
     + 2 powi (- 1074)"

subsection \<open>The dictionary as a shared object\<close>

text \<open>
  \<^verbatim>\<open>self.ratings = initial_ratings or {}\<close> stores the caller's dictionary object when it
  is not empty, and a new empty dictionary otherwise; \<^verbatim>\<open>play_game\<close> then assigns into
  that object. The store is the list of the dictionary objects of the program, a
  reference is an index into it, and an engine object holds the reference of its
  dictionary. \<open>deref\<close> gives the engine as its methods read it. A method call on an
  object is the method above on the dereferenced engine, with the assignments written
  back to the object's dictionary in the store. (The name mapping is never assigned to
  and is kept by its contents.)
\<close>

type_synonym store = "(string \<rightharpoonup> real) list"

record RatingSystem_obj =
  ratings_ref :: nat
  obj_team_mapping :: "string \<rightharpoonup> string"
  obj_k :: real
  obj_home_adv :: real
  obj_game_history :: "game_result list"

definition deref :: "store \<Rightarrow> RatingSystem_obj \<Rightarrow> RatingSystem" where
  "deref st obj =
     \<lparr> ratings = st ! ratings_ref obj,
       team_mapping = obj_team_mapping obj,
       k = obj_k obj,
       home_adv = obj_home_adv obj,
       game_history = obj_game_history obj \<rparr>"

text \<open>
  The argument \<^verbatim>\<open>initial_ratings\<close> is \<^verbatim>\<open>None\<close> or a reference; \<open>contents_of\<close> is the
  dictionary it stands for, and a reference is valid when it points into the store.
\<close>

definition contents_of :: "store \<Rightarrow> nat option \<Rightarrow> (string \<rightharpoonup> real)" where
  "contents_of st initial_ratings = (case initial_ratings of None \<Rightarrow> Map.empty | Some r \<Rightarrow> st ! r)"

definition valid_ref :: "store \<Rightarrow> nat option \<Rightarrow> bool" where
  "valid_ref st initial_ratings = (case initial_ratings of None \<Rightarrow> True | Some r \<Rightarrow> r < length st)"

definition RatingSystem_new ::
  "store \<Rightarrow> nat option \<Rightarrow> (string \<rightharpoonup> string) option \<Rightarrow> real \<Rightarrow> real \<Rightarrow> store \<times> RatingSystem_obj" where
  "RatingSystem_new st initial_ratings team_map kf ha =
     (let fresh = (case initial_ratings of None \<Rightarrow> True | Some r \<Rightarrow> st ! r = Map.empty)
      in (if fresh then st @ [Map.empty] else st,
          \<lparr> ratings_ref = (if fresh then length st else the initial_ratings),
            obj_team_mapping = (case team_map of None \<Rightarrow> Map.empty | Some m \<Rightarrow> m),
            obj_k = kf,
            obj_home_adv = ha,
            obj_game_history = [] \<rparr>))"

definition play_game_obj ::
  "store \<Rightarrow> RatingSystem_obj \<Rightarrow> string \<Rightarrow> string \<Rightarrow> string \<Rightarrow> int \<Rightarrow> int
     \<Rightarrow> error + (game_result \<times> store \<times> RatingSystem_obj)" where
  "play_game_obj st obj now home away home_score away_score =
     (case play_game (deref st obj) now home away home_score away_score of
        Inl e \<Rightarrow> Inl e
      | Inr (game_result, self') \<Rightarrow>
          Inr (game_result,
               st[ratings_ref obj := ratings self'],
               obj\<lparr> obj_game_history := game_history self' \<rparr>))"

fun play_games_obj ::
  "store \<Rightarrow> RatingSystem_obj \<Rightarrow> game_call list \<Rightarrow> error + (store \<times> RatingSystem_obj)" where
  "play_games_obj st obj [] = Inr (st, obj)"
| "play_games_obj st obj ((now, home, away, home_score, away_score) # calls) =
     (case play_game_obj st obj now home away home_score away_score of
        Inl e \<Rightarrow> Inl e
      | Inr (_, st', obj') \<Rightarrow> play_games_obj st' obj' calls)"

text \<open>Building an engine and feeding it a sequence of games.\<close>

definition build_and_play ::
  "store \<Rightarrow> nat option \<Rightarrow> (string \<rightharpoonup> string) option \<Rightarrow> real \<Rightarrow> real \<Rightarrow> game_call list
     \<Rightarrow> error + (store \<times> RatingSystem_obj)" where
  "build_and_play st initial_ratings team_map kf ha calls =
     (case RatingSystem_new st initial_ratings team_map kf ha of
        (st', obj) \<Rightarrow> play_games_obj st' obj calls)"

text \<open>
  Two engines fed in any interleaving: each call is tagged with the engine it goes to,
  \<open>True\<close> for the first. \<open>calls_of\<close> picks the calls of one engine.
\<close>

fun play_interleaved ::
  "store \<Rightarrow> RatingSystem_obj \<Rightarrow> RatingSystem_obj \<Rightarrow> (bool \<times> game_call) list
     \<Rightarrow> error + (store \<times> RatingSystem_obj \<times> RatingSystem_obj)" where
  "play_interleaved st obj1 obj2 [] = Inr (st, obj1, obj2)"
| "play_interleaved st obj1 obj2 ((first, now, home, away, home_score, away_score) # calls) =
     (if first
      then (case play_game_obj st obj1 now home away home_score away_score of
              Inl e \<Rightarrow> Inl e
            | Inr (_, st', obj1') \<Rightarrow> play_interleaved st' obj1' obj2 calls)
      else (case play_game_obj st obj2 now home away home_score away_score of
              Inl e \<Rightarrow> Inl e
            | Inr (_, st', obj2') \<Rightarrow> play_interleaved st' obj1 obj2' calls))"

definition calls_of :: "bool \<Rightarrow> (bool \<times> game_call) list \<Rightarrow> game_call list" where
  "calls_of first calls = map snd (filter (\<lambda>c. fst c = first) calls)"

subsection \<open>What is read off the log\<close>

text \<open>
  The four arguments of the call that a log entry records, and a log entry with its time
  stamp or its two display names blanked: the views of the log that the statements about
  replay and about two runs compare.
\<close>

definition logged_game :: "game_result \<Rightarrow> string \<times> string \<times> int \<times> int" where
  "logged_game r = (gr_home r, gr_away r, gr_home_score r, gr_away_score r)"

definition without_timestamp :: "game_result \<Rightarrow> game_result" where
  "without_timestamp r = r\<lparr> gr_timestamp := [] \<rparr>"

definition without_names :: "game_result \<Rightarrow> game_result" where
  "without_names r = r\<lparr> gr_home_team_full := [], gr_away_team_full := [] \<rparr>"

section \<open>Properties\<close>

subsection \<open>What one call returns\<close>

text \<open>
  The subscripts of \<^verbatim>\<open>play_game\<close> read keys that were just assigned, so neither can
  raise, and the call has the closed form below. When \<open>home = away\<close> the second
  assignment replaces the first, and both subscripts read the value it stored.
\<close>

lemma play_game_closed_form:
  fixes self :: RatingSystem and now home away :: string and home_score away_score :: int
  defines "hr \<equiv> dict_get (ratings self) home 0"
    and "ar \<equiv> dict_get (ratings self) away 0"
  defines "dr \<equiv> delta_rating self (home_score - away_score) (expected_mov self hr ar)"
  defines "gr \<equiv>
     \<lparr> gr_timestamp = now,
       gr_home = home,
       gr_away = away,
       gr_home_score = home_score,
       gr_away_score = away_score,
       gr_home_rating_before = hr,
       gr_away_rating_before = ar,
       gr_home_rating_after = (if home = away then ar - dr else hr + dr),
       gr_away_rating_after = ar - dr,
       gr_expected_mov = expected_mov self hr ar,
       gr_actual_mov = home_score - away_score,
       gr_delta_rating = dr,
       gr_home_team_full = dict_get (team_mapping self) home home,
       gr_away_team_full = dict_get (team_mapping self) away away \<rparr>"
  shows "play_game self now home away home_score away_score =
     Inr (gr, self\<lparr> ratings := (ratings self)(home \<mapsto> hr + dr, away \<mapsto> ar - dr),
                    game_history := game_history self @ [gr] \<rparr>)"
  by (simp add: play_game_def Let_def dict_item_def hr_def ar_def dr_def gr_def)

lemma play_game_total:
  "\<exists>r self'. play_game self now home away hs as = Inr (r, self')"
  by (simp add: play_game_closed_form)

lemma play_game_InrD:
  fixes self :: RatingSystem and now home away :: string and hs as :: int
  defines "hr \<equiv> dict_get (ratings self) home 0"
    and "ar \<equiv> dict_get (ratings self) away 0"
  defines "dr \<equiv> delta_rating self (hs - as) (expected_mov self hr ar)"
  assumes run: "play_game self now home away hs as = Inr (r, self')"
  shows "ratings self' = (ratings self)(home \<mapsto> hr + dr, away \<mapsto> ar - dr)"
    and "k self' = k self"
    and "home_adv self' = home_adv self"
    and "team_mapping self' = team_mapping self"
    and "game_history self' = game_history self @ [r]"
    and "r = \<lparr> gr_timestamp = now, gr_home = home, gr_away = away,
               gr_home_score = hs, gr_away_score = as,
               gr_home_rating_before = hr, gr_away_rating_before = ar,
               gr_home_rating_after = (if home = away then ar - dr else hr + dr),
               gr_away_rating_after = ar - dr,
               gr_expected_mov = expected_mov self hr ar,
               gr_actual_mov = hs - as,
               gr_delta_rating = dr,
               gr_home_team_full = dict_get (team_mapping self) home home,
               gr_away_team_full = dict_get (team_mapping self) away away \<rparr>"
  using run unfolding hr_def ar_def dr_def by (auto simp: play_game_closed_form)

lemma play_game_finite:
  assumes "play_game self now home away hs as = Inr (r, self')" and "finite (dom (ratings self))"
  shows "finite (dom (ratings self'))"
  using assms by (auto simp: play_game_closed_form)

subsection \<open>The sum of the ratings under an assignment\<close>

text \<open>
  Assigning one key changes the sum by the new value less the old one, an absent key
  counting for \<open>0\<close>, the default of the look-ups.
\<close>

lemma rating_sum_upd:
  assumes fin: "finite (dom m)"
  shows "rating_sum (m(team \<mapsto> v)) = rating_sum m - dict_get m team 0 + v"
proof -
  let ?rest = "dom m - {team}"
  have "dom (m(team \<mapsto> v)) = insert team ?rest"
    by auto
  then have a: "rating_sum (m(team \<mapsto> v)) = (\<Sum>t \<in> insert team ?rest. the ((m(team \<mapsto> v)) t))"
    unfolding rating_sum_def by simp
  have b: "(\<Sum>t \<in> insert team ?rest. the ((m(team \<mapsto> v)) t))
             = the ((m(team \<mapsto> v)) team) + (\<Sum>t \<in> ?rest. the ((m(team \<mapsto> v)) t))"
    using fin by (subst sum.insert) auto
  have c: "(\<Sum>t \<in> ?rest. the ((m(team \<mapsto> v)) t)) = (\<Sum>t \<in> ?rest. the (m t))"
    by (rule sum.cong) auto
  have d: "the ((m(team \<mapsto> v)) team) = v"
    by simp
  from a b c d have upd: "rating_sum (m(team \<mapsto> v)) = v + (\<Sum>t \<in> ?rest. the (m t))"
    by linarith
  have old: "rating_sum m = dict_get m team 0 + (\<Sum>t \<in> ?rest. the (m t))"
  proof (cases "m team")
    case None
    then have "?rest = dom m"
      by auto
    with None show ?thesis
      by (simp add: rating_sum_def dict_get_def)
  next
    case (Some r)
    then have "team \<in> dom m"
      by auto
    then have "(\<Sum>t \<in> dom m. the (m t)) = the (m team) + (\<Sum>t \<in> ?rest. the (m t))"
      using fin by (rule_tac sum.remove) auto
    with Some show ?thesis
      by (simp add: rating_sum_def dict_get_def)
  qed
  from upd old show ?thesis
    by simp
qed

lemma rating_sum_two_upd:
  assumes fin: "finite (dom m)" and ne: "home \<noteq> away"
  shows "rating_sum (m(home \<mapsto> dict_get m home 0 + d, away \<mapsto> dict_get m away 0 - d)) = rating_sum m"
proof -
  have "dict_get (m(home \<mapsto> dict_get m home 0 + d)) away 0 = dict_get m away 0"
    using ne by (simp add: dict_get_def)
  then show ?thesis
    using fin by (simp add: rating_sum_upd)
qed

lemma rating_sum_self_upd:
  assumes fin: "finite (dom m)"
  shows "rating_sum (m(x \<mapsto> dict_get m x 0 + d, x \<mapsto> dict_get m x 0 - d)) = rating_sum m - d"
  using fin by (simp add: rating_sum_upd)

subsection \<open>Two runs over the same games\<close>

text \<open>
  Two engines that agree on ratings, \<open>k\<close> and \<open>home_adv\<close> and are fed the same games
  (whatever the clock says) end with the same ratings. The entries they append agree up
  to time stamp and display names, and up to the time stamp alone when the two name
  mappings agree. The induction follows the list of calls, with both engines generalised.
\<close>

lemma play_games_two_runs:
  assumes "ratings s = ratings t" and "k s = k t" and "home_adv s = home_adv t"
    and "map snd cs = map snd cs'"
  shows "\<exists>s' t' rs rs'.
           play_games s cs = Inr s' \<and> play_games t cs' = Inr t'
         \<and> ratings s' = ratings t'
         \<and> game_history s' = game_history s @ rs
         \<and> game_history t' = game_history t @ rs'
         \<and> map logged_game rs = map snd cs
         \<and> map (without_names \<circ> without_timestamp) rs = map (without_names \<circ> without_timestamp) rs'
         \<and> (team_mapping s = team_mapping t \<longrightarrow> map without_timestamp rs = map without_timestamp rs')"
  using assms
proof (induction cs arbitrary: s t cs')
  case Nil
  then show ?case by simp
next
  case (Cons c cs)
  obtain now home away hs as where c: "c = (now, home, away, hs, as)"
    by (cases c)
  from Cons.prems(4) obtain c' cs'' where cs': "cs' = c' # cs''"
    and heads: "snd c' = snd c" and tails: "map snd cs = map snd cs''"
    by (cases cs') auto
  from heads c obtain now' where c': "c' = (now', home, away, hs, as)"
    by (cases c') auto
  obtain r s1 where ps: "play_game s now home away hs as = Inr (r, s1)"
    using play_game_total by blast
  obtain r' t1 where pt: "play_game t now' home away hs as = Inr (r', t1)"
    using play_game_total by blast
  note ds = play_game_InrD [OF ps] and dt = play_game_InrD [OF pt]
  have same: "ratings s1 = ratings t1" "k s1 = k t1" "home_adv s1 = home_adv t1"
    using Cons.prems(1-3) ds(1-3) dt(1-3) by (simp_all add: expected_mov_def delta_rating_def)
  from Cons.IH [OF same tails] obtain s' t' rs rs' where ih:
    "play_games s1 cs = Inr s'" "play_games t1 cs'' = Inr t'" "ratings s' = ratings t'"
    "game_history s' = game_history s1 @ rs" "game_history t' = game_history t1 @ rs'"
    "map logged_game rs = map snd cs"
    "map (without_names \<circ> without_timestamp) rs = map (without_names \<circ> without_timestamp) rs'"
    "team_mapping s1 = team_mapping t1 \<longrightarrow> map without_timestamp rs = map without_timestamp rs'"
    by blast
  have r1: "logged_game r = snd c"
    by (subst ds(6)) (simp add: logged_game_def c)
  have r2: "without_names (without_timestamp r) = without_names (without_timestamp r')"
    using Cons.prems(1-3)
    by (subst ds(6), subst dt(6))
       (simp add: without_names_def without_timestamp_def expected_mov_def delta_rating_def)
  have r3: "team_mapping s = team_mapping t \<Longrightarrow> without_timestamp r = without_timestamp r'"
    using Cons.prems(1-3)
    by (subst ds(6), subst dt(6))
       (simp add: without_timestamp_def expected_mov_def delta_rating_def)
  have "play_games s (c # cs) = Inr s'" "play_games t cs' = Inr t'"
    using ps pt ih(1,2) by (simp_all add: c cs' c')
  moreover have "game_history s' = game_history s @ (r # rs)" "game_history t' = game_history t @ (r' # rs')"
    using ih(4,5) ds(5) dt(5) by simp_all
  moreover have "map logged_game (r # rs) = map snd (c # cs)"
    using r1 ih(6) by simp
  moreover have "map (without_names \<circ> without_timestamp) (r # rs) = map (without_names \<circ> without_timestamp) (r' # rs')"
    using r2 ih(7) by simp
  moreover have "team_mapping s = team_mapping t \<longrightarrow> map without_timestamp (r # rs) = map without_timestamp (r' # rs')"
    using r3 ih(8) ds(4) dt(4) by simp
  ultimately show ?case
    using ih(3) by blast
qed

text \<open>
  In exact arithmetic a game between two different teams leaves the sum alone; so does
  a sequence of them.
\<close>

lemma play_games_sum:
  assumes "finite (dom (ratings s))" and "\<forall>(now, home, away, hs, as) \<in> set cs. home \<noteq> away"
  shows "\<exists>s'. play_games s cs = Inr s' \<and> rating_sum (ratings s') = rating_sum (ratings s)"
  using assms
proof (induction cs arbitrary: s)
  case Nil
  then show ?case by simp
next
  case (Cons c cs)
  obtain now home away hs as where c: "c = (now, home, away, hs, as)"
    by (cases c)
  with Cons.prems(2) have ne: "home \<noteq> away" and rest: "\<forall>(now, home, away, hs, as) \<in> set cs. home \<noteq> away"
    by auto
  obtain r s1 where ps: "play_game s now home away hs as = Inr (r, s1)"
    using play_game_total by blast
  have fin1: "finite (dom (ratings s1))"
    using ps Cons.prems(1) by (rule play_game_finite)
  have "rating_sum (ratings s1) = rating_sum (ratings s)"
    using Cons.prems(1) ne by (simp add: play_game_InrD(1) [OF ps] rating_sum_two_upd)
  moreover from Cons.IH [OF fin1 rest] obtain s' where
    "play_games s1 cs = Inr s'" "rating_sum (ratings s') = rating_sum (ratings s1)"
    by blast
  ultimately show ?case
    using ps by (simp add: c)
qed

subsection \<open>Rounding to a double\<close>

text \<open>
  Once the binary exponent of \<open>x\<close> is known, \<open>round64 x\<close> is a computation on integers;
  the instances below are the exponents that occur in the examples.
\<close>

lemma floor_log2_eq:
  fixes x :: real
  assumes "2 powi e \<le> x" and "x < 2 powi (e + 1)"
  shows "\<lfloor>log 2 x\<rfloor> = e"
proof -
  have pos: "0 < x"
    using assms(1) by (smt (verit) zero_less_power_int zero_less_numeral)
  have "(2 :: real) powr (real_of_int e) = 2 powi e"
    and "(2 :: real) powr (real_of_int (e + 1)) = 2 powi (e + 1)"
    by (rule powr_real_of_int'; simp)+
  with assms have "2 powr (real_of_int e) \<le> x" "x < 2 powr (real_of_int (e + 1))"
    by simp_all
  then have "2 powr (real_of_int e) \<le> x \<and> x < 2 powr (real_of_int e + 1)"
    by (simp add: add.commute)
  then show ?thesis
    using pos by (subst floor_log_eq_powr_iff) simp_all
qed

lemma round64_eval:
  assumes "2 powi e \<le> \<bar>x\<bar>" and "\<bar>x\<bar> < 2 powi (e + 1)" and "- 1022 \<le> e"
  shows "round64 x = of_int (round_half_even (x / 2 powi (e - 52))) * 2 powi (e - 52)"
proof -
  have "\<lfloor>log 2 \<bar>x\<bar>\<rfloor> = e"
    using assms(1,2) by (rule floor_log2_eq)
  then have "ulp_exponent x = e - 52"
    using assms(3) by (simp add: ulp_exponent_def)
  moreover have "x \<noteq> 0"
    using assms(1) by (smt (verit) zero_less_power_int zero_less_numeral abs_zero)
  ultimately show ?thesis
    by (simp add: round64_def)
qed

lemmas round64_at =
  round64_eval [of "-5"] round64_eval [of "-3"] round64_eval [of 0] round64_eval [of 1]
  round64_eval [of 2] round64_eval [of 4] round64_eval [of "-4"]

text \<open>The doubles that the decimal literals of the examples denote.\<close>

lemma double_literals:
  "round64 0.05 = 7205759403792794 / 2 ^ 57"
  "round64 2.2 = 4953959590107546 / 2 ^ 51"
  "round64 0.14 = 5044031582654956 / 2 ^ 55"
  "round64 1.92 = 8646911284551352 / 2 ^ 52"
  "round64 1.096 = 4935945191598064 / 2 ^ 52"
  "round64 1.236 = 5566449139429933 / 2 ^ 52"
  by (simp_all add: round64_at round_half_even_def Let_def)

lemmas eval64 =
  play_game64_def expected_mov64_def delta_rating64_def and_then_def to_double_def
  float_of_int_def item64_def RatingSystem_init_def dict_get_def Let_def
  double_literals round64_at round_half_even_def

text \<open>
  The error of one rounding is at most half a unit in the last place: \<open>2 powi (- 53)\<close>
  of the exact value in the normal range, \<open>2 powi (- 1075)\<close> below it.
\<close>

lemma round_half_even_error:
  "\<bar>real_of_int (round_half_even y) - y\<bar> \<le> 1 / 2"
proof -
  have "real_of_int \<lfloor>y\<rfloor> \<le> y" "y < real_of_int \<lfloor>y\<rfloor> + 1"
    by linarith+
  then show ?thesis
    by (auto simp: round_half_even_def Let_def)
qed

lemma power_int_floor_log_le:
  fixes x :: real
  assumes "x \<noteq> 0"
  shows "2 powi \<lfloor>log 2 \<bar>x\<bar>\<rfloor> \<le> \<bar>x\<bar>"
proof -
  have pos: "0 < \<bar>x\<bar>"
    using assms by simp
  have "(2 :: real) powr real_of_int \<lfloor>log 2 \<bar>x\<bar>\<rfloor> \<le> 2 powr log 2 \<bar>x\<bar>"
    by (intro powr_mono) simp_all
  also have "\<dots> = \<bar>x\<bar>"
    using pos by simp
  finally show ?thesis
    by (simp add: powr_real_of_int')
qed

lemma half_ulp:
  "(2 :: real) powi (e - 52) / 2 = 2 powi (- 53) * 2 powi e"
proof -
  have "(2 :: real) powi (e - 52) / 2 = 2 powi (e - 52) * 2 powi (- 1)"
    by simp
  also have "\<dots> = 2 powi ((e - 52) + (- 1))"
    by (subst power_int_add) simp_all
  also have "(e - 52) + (- 1) = (- 53) + e"
    by simp
  also have "(2 :: real) powi ((- 53) + e) = 2 powi (- 53) * 2 powi e"
    by (subst power_int_add) simp_all
  finally show ?thesis .
qed

lemma round64_error:
  "\<bar>round64 x - x\<bar> \<le> 2 powi (- 53) * \<bar>x\<bar> + 2 powi (- 1075)"
proof (cases "x = 0")
  case True
  then show ?thesis
    by (simp add: round64_def)
next
  case False
  let ?q = "ulp_exponent x"
  let ?u = "(2 :: real) powi ?q"
  let ?n = "round_half_even (x / ?u)"
  have u: "0 < ?u"
    by (simp add: zero_less_power_int)
  have "round64 x - x = (real_of_int ?n - x / ?u) * ?u"
    using False u by (simp add: round64_def field_simps)
  then have "\<bar>round64 x - x\<bar> = \<bar>real_of_int ?n - x / ?u\<bar> * ?u"
    using u by (simp add: abs_mult)
  also have "\<dots> \<le> (1 / 2) * ?u"
    using u round_half_even_error [of "x / ?u"] by (intro mult_right_mono) simp_all
  finally have half: "\<bar>round64 x - x\<bar> \<le> ?u / 2"
    by simp
  have "?u / 2 \<le> 2 powi (- 53) * \<bar>x\<bar> + 2 powi (- 1075)"
  proof (cases "- 1074 \<le> \<lfloor>log 2 \<bar>x\<bar>\<rfloor> - 52")
    case True
    then have "?q = \<lfloor>log 2 \<bar>x\<bar>\<rfloor> - 52"
      by (simp add: ulp_exponent_def)
    then have "?u / 2 = 2 powi (- 53) * 2 powi \<lfloor>log 2 \<bar>x\<bar>\<rfloor>"
      by (simp add: half_ulp)
    also have "\<dots> \<le> 2 powi (- 53) * \<bar>x\<bar>"
      using power_int_floor_log_le [OF False] by (intro mult_left_mono) simp_all
    also have "\<dots> \<le> 2 powi (- 53) * \<bar>x\<bar> + 2 powi (- 1075)"
      by simp
    finally show ?thesis .
  next
    case False
    then have "?q = - 1074"
      by (simp add: ulp_exponent_def)
    then have "?u / 2 = 2 powi (- 1075)"
      by (simp add: power_int_minus)
    moreover have "0 \<le> 2 powi (- 53) * \<bar>x\<bar>"
      by simp
    ultimately show ?thesis
      by linarith
  qed
  with half show ?thesis
    by linarith
qed

text \<open>
  A game between two different teams that returns replaces two entries of the
  dictionary by roundings of \<open>home_rating + dr\<close> and \<open>away_rating - dr\<close>, with the same
  \<open>dr\<close>; the sum moves by the two rounding errors only.
\<close>

lemma play_game64_InrD:
  assumes "play_game64 self now home away hs as = Inr (r, self')"
  shows "ratings self' =
           (ratings self)
             (home \<mapsto> round64 (dict_get (ratings self) home 0 + gr_delta_rating r),
              away \<mapsto> round64 (dict_get (ratings self) away 0 - gr_delta_rating r))"
    and "game_history self' = game_history self @ [r]"
    and "gr_home_rating_before r = dict_get (ratings self) home 0"
    and "gr_away_rating_before r = dict_get (ratings self) away 0"
  using assms
  by (auto simp: play_game64_def and_then_def to_double_def item64_def Let_def
      split: sum.splits if_splits)

lemma two_roundings:
  fixes p q a b x y t :: real
  assumes "t = x + y" and "\<bar>x\<bar> \<le> p * a + q" and "\<bar>y\<bar> \<le> p * b + q"
  shows "\<bar>t\<bar> \<le> p * (a + b) + (q + q)"
proof -
  have "\<bar>t\<bar> \<le> \<bar>x\<bar> + \<bar>y\<bar>"
    unfolding assms(1) by (rule abs_triangle_ineq)
  also have "\<dots> \<le> (p * a + q) + (p * b + q)"
    using assms(2,3) by (rule add_mono)
  also have "\<dots> = p * (a + b) + (q + q)"
    by (simp add: distrib_left)
  finally show ?thesis .
qed

lemma play_game64_sum:
  assumes run: "play_game64 self now home away hs as = Inr (r, self')"
    and fin: "finite (dom (ratings self))" and ne: "home \<noteq> away"
  shows "\<bar>rating_sum (ratings self') - rating_sum (ratings self)\<bar> \<le> rounding_allowance r"
    and "finite (dom (ratings self'))"
proof -
  let ?m = "ratings self"
  let ?hb = "dict_get ?m home 0" and ?ab = "dict_get ?m away 0" and ?d = "gr_delta_rating r"
  let ?h = "round64 (?hb + ?d)" and ?a = "round64 (?ab - ?d)"
  note d = play_game64_InrD [OF run]
  have fin1: "finite (dom (?m(home \<mapsto> ?h)))"
    using fin by simp
  have other: "dict_get (?m(home \<mapsto> ?h)) away 0 = ?ab"
    using ne by (simp add: dict_get_def)
  have "rating_sum (ratings self') = rating_sum (?m(home \<mapsto> ?h)) - ?ab + ?a"
    using rating_sum_upd [OF fin1, of away ?a] other by (simp add: d(1))
  also have "rating_sum (?m(home \<mapsto> ?h)) = rating_sum ?m - ?hb + ?h"
    using fin by (rule rating_sum_upd)
  finally have diff: "rating_sum (ratings self') - rating_sum ?m
      = (?h - (?hb + ?d)) + (?a - (?ab - ?d))"
    by simp
  have eh: "\<bar>?h - (?hb + ?d)\<bar> \<le> 2 powi (- 53) * \<bar>?hb + ?d\<bar> + 2 powi (- 1075)"
    by (rule round64_error)
  have ea: "\<bar>?a - (?ab - ?d)\<bar> \<le> 2 powi (- 53) * \<bar>?ab - ?d\<bar> + 2 powi (- 1075)"
    by (rule round64_error)
  have twice: "(2 :: real) powi (- 1074) = 2 powi (- 1075) + 2 powi (- 1075)"
    by simp
  have "rounding_allowance r
      = 2 powi (- 53) * (\<bar>?hb + ?d\<bar> + \<bar>?ab - ?d\<bar>) + (2 powi (- 1075) + 2 powi (- 1075))"
    unfolding rounding_allowance_def d(3,4) twice ..
  with two_roundings [OF diff eh ea]
  show "\<bar>rating_sum (ratings self') - rating_sum (ratings self)\<bar> \<le> rounding_allowance r"
    by (simp only:)
  show "finite (dom (ratings self'))"
    using fin by (simp add: d(1))
qed

text \<open>
  It does move: with \<^verbatim>\<open>"A"\<close> rated \<open>1\<close>, \<open>k = 0.05\<close> and home advantage \<open>2.2\<close>, the
  game A against B, 90 to 85, stores \<open>1.09\<close> and \<open>- 0.09\<close> as doubles, and their sum is
  \<open>1 + 3 / 2 ^ 55\<close>.
\<close>

lemma ordinary_game_rounding:
  "\<not> isl (play_games64 (RatingSystem_init (Some [''A'' \<mapsto> 1]) None (round64 0.05) (round64 2.2))
             [(''t'', ''A'', ''B'', 90, 85)])
   \<and> rating_sum (ratings (RatingSystem_init (Some [''A'' \<mapsto> 1]) None (round64 0.05) (round64 2.2))) = 1
   \<and> rating_sum (ratings (projr
         (play_games64 (RatingSystem_init (Some [''A'' \<mapsto> 1]) None (round64 0.05) (round64 2.2))
            [(''t'', ''A'', ''B'', 90, 85)])))
       = 1 + 3 / 2 ^ 55"
  by (simp add: eval64 rating_sum_def)

subsection \<open>Engines in the store\<close>

text \<open>
  While the reference of an engine is valid, a run on the object is the run on the
  dereferenced engine, written back at that reference; a dictionary at another
  reference is not touched.
\<close>

lemma deref_new:
  assumes "valid_ref st initial_ratings"
  shows "deref (fst (RatingSystem_new st initial_ratings team_map kf ha))
               (snd (RatingSystem_new st initial_ratings team_map kf ha))
         = RatingSystem_init (Some (contents_of st initial_ratings)) team_map kf ha"
    and "ratings_ref (snd (RatingSystem_new st initial_ratings team_map kf ha))
         < length (fst (RatingSystem_new st initial_ratings team_map kf ha))"
  using assms
  by (auto simp: RatingSystem_new_def deref_def RatingSystem_init_def contents_of_def valid_ref_def
        Let_def nth_append split: option.splits)

lemma play_game_obj_deref:
  assumes "ratings_ref obj < length st"
    and "play_game (deref st obj) now home away hs as = Inr (r, self')"
  shows "play_game_obj st obj now home away hs as
           = Inr (r, st[ratings_ref obj := ratings self'], obj\<lparr> obj_game_history := game_history self' \<rparr>)"
    and "deref (st[ratings_ref obj := ratings self']) (obj\<lparr> obj_game_history := game_history self' \<rparr>) = self'"
  using assms by (auto simp: play_game_obj_def deref_def play_game_closed_form)

lemma deref_other:
  assumes "ratings_ref obj \<noteq> r"
  shows "deref (st[r := m]) obj = deref st obj"
  using assms by (simp add: deref_def)

lemma play_games_obj_by_value:
  assumes "ratings_ref obj < length st"
  shows "\<exists>s. play_games (deref st obj) calls = Inr s
           \<and> play_games_obj st obj calls
               = Inr (st[ratings_ref obj := ratings s], obj\<lparr> obj_game_history := game_history s \<rparr>)"
  using assms
proof (induction calls arbitrary: st obj)
  case Nil
  then show ?case
    by (simp add: deref_def)
next
  case (Cons c calls)
  obtain now home away hs as where c: "c = (now, home, away, hs, as)"
    by (cases c)
  obtain r self' where ps: "play_game (deref st obj) now home away hs as = Inr (r, self')"
    using play_game_total by blast
  let ?st = "st[ratings_ref obj := ratings self']"
  let ?obj = "obj\<lparr> obj_game_history := game_history self' \<rparr>"
  note step = play_game_obj_deref [OF Cons.prems ps]
  from Cons.IH [of ?obj ?st] Cons.prems obtain s where ih:
    "play_games (deref ?st ?obj) calls = Inr s"
    "play_games_obj ?st ?obj calls
       = Inr (?st[ratings_ref ?obj := ratings s], ?obj\<lparr> obj_game_history := game_history s \<rparr>)"
    by auto
  have "play_games (deref st obj) (c # calls) = Inr s"
    using ih(1) ps step(2) by (simp add: c)
  moreover have "play_games_obj st obj (c # calls)
      = Inr (st[ratings_ref obj := ratings s], obj\<lparr> obj_game_history := game_history s \<rparr>)"
    using ih(2) step(1) by (simp add: c)
  ultimately show ?case
    by blast
qed

lemma build_and_play_by_value:
  assumes "valid_ref st initial_ratings"
  shows "\<exists>s. play_games (RatingSystem_init (Some (contents_of st initial_ratings)) team_map kf ha) calls = Inr s
           \<and> (\<exists>st' obj. build_and_play st initial_ratings team_map kf ha calls = Inr (st', obj)
                  \<and> st' ! ratings_ref obj = ratings s
                  \<and> obj_game_history obj = game_history s)"
proof -
  obtain st0 obj0 where new: "RatingSystem_new st initial_ratings team_map kf ha = (st0, obj0)"
    by (cases "RatingSystem_new st initial_ratings team_map kf ha")
  from deref_new [OF assms, of team_map kf ha] new
  have d: "deref st0 obj0 = RatingSystem_init (Some (contents_of st initial_ratings)) team_map kf ha"
    and r: "ratings_ref obj0 < length st0"
    by simp_all
  from play_games_obj_by_value [OF r, of calls] d obtain s where
    "play_games (RatingSystem_init (Some (contents_of st initial_ratings)) team_map kf ha) calls = Inr s"
    "play_games_obj st0 obj0 calls
       = Inr (st0[ratings_ref obj0 := ratings s], obj0\<lparr> obj_game_history := game_history s \<rparr>)"
    by auto
  with r new show ?thesis
    by (simp add: build_and_play_def)
qed

lemma play_interleaved_by_value:
  assumes "ratings_ref obj1 < length st" and "ratings_ref obj2 < length st"
    and "ratings_ref obj1 \<noteq> ratings_ref obj2"
  shows "\<exists>s1 s2.
           play_games (deref st obj1) (calls_of True calls) = Inr s1
         \<and> play_games (deref st obj2) (calls_of False calls) = Inr s2
         \<and> play_interleaved st obj1 obj2 calls
             = Inr (st[ratings_ref obj1 := ratings s1, ratings_ref obj2 := ratings s2],
                    obj1\<lparr> obj_game_history := game_history s1 \<rparr>,
                    obj2\<lparr> obj_game_history := game_history s2 \<rparr>)"
  using assms
proof (induction calls arbitrary: st obj1 obj2)
  case Nil
  then show ?case
    by (simp add: calls_of_def deref_def)
next
  case (Cons c calls)
  obtain first now home away hs as where c: "c = (first, now, home, away, hs, as)"
    by (cases c)
  show ?case
  proof (cases first)
    case True
    obtain r self' where ps: "play_game (deref st obj1) now home away hs as = Inr (r, self')"
      using play_game_total by blast
    let ?st = "st[ratings_ref obj1 := ratings self']"
    let ?obj = "obj1\<lparr> obj_game_history := game_history self' \<rparr>"
    note step = play_game_obj_deref [OF Cons.prems(1) ps]
    have other: "deref ?st obj2 = deref st obj2"
      using Cons.prems(3) by (simp add: deref_other)
    from Cons.IH [of ?obj ?st obj2] Cons.prems obtain s1 s2 where ih:
      "play_games (deref ?st ?obj) (calls_of True calls) = Inr s1"
      "play_games (deref ?st obj2) (calls_of False calls) = Inr s2"
      "play_interleaved ?st ?obj obj2 calls
         = Inr (?st[ratings_ref ?obj := ratings s1, ratings_ref obj2 := ratings s2],
                ?obj\<lparr> obj_game_history := game_history s1 \<rparr>,
                obj2\<lparr> obj_game_history := game_history s2 \<rparr>)"
      by auto
    have "play_games (deref st obj1) (calls_of True (c # calls)) = Inr s1"
      using ih(1) ps step(2) by (simp add: calls_of_def c True)
    moreover have "play_games (deref st obj2) (calls_of False (c # calls)) = Inr s2"
      using ih(2) other by (simp add: calls_of_def c True)
    moreover have "play_interleaved st obj1 obj2 (c # calls)
        = Inr (st[ratings_ref obj1 := ratings s1, ratings_ref obj2 := ratings s2],
               obj1\<lparr> obj_game_history := game_history s1 \<rparr>,
               obj2\<lparr> obj_game_history := game_history s2 \<rparr>)"
      using ih(3) step(1) by (simp add: c True)
    ultimately show ?thesis
      by blast
  next
    case False
    obtain r self' where ps: "play_game (deref st obj2) now home away hs as = Inr (r, self')"
      using play_game_total by blast
    let ?st = "st[ratings_ref obj2 := ratings self']"
    let ?obj = "obj2\<lparr> obj_game_history := game_history self' \<rparr>"
    note step = play_game_obj_deref [OF Cons.prems(2) ps]
    have other: "deref ?st obj1 = deref st obj1"
      using Cons.prems(3) by (simp add: deref_other)
    from Cons.IH [of obj1 ?st ?obj] Cons.prems obtain s1 s2 where ih:
      "play_games (deref ?st obj1) (calls_of True calls) = Inr s1"
      "play_games (deref ?st ?obj) (calls_of False calls) = Inr s2"
      "play_interleaved ?st obj1 ?obj calls
         = Inr (?st[ratings_ref obj1 := ratings s1, ratings_ref ?obj := ratings s2],
                obj1\<lparr> obj_game_history := game_history s1 \<rparr>,
                ?obj\<lparr> obj_game_history := game_history s2 \<rparr>)"
      by auto
    have "play_games (deref st obj1) (calls_of True (c # calls)) = Inr s1"
      using ih(1) other by (simp add: calls_of_def c False)
    moreover have "play_games (deref st obj2) (calls_of False (c # calls)) = Inr s2"
      using ih(2) ps step(2) by (simp add: calls_of_def c False)
    moreover have "play_interleaved st obj1 obj2 (c # calls)
        = Inr (st[ratings_ref obj1 := ratings s1, ratings_ref obj2 := ratings s2],
               obj1\<lparr> obj_game_history := game_history s1 \<rparr>,
               obj2\<lparr> obj_game_history := game_history s2 \<rparr>)"
      using ih(3) step(1) Cons.prems(3) by (simp add: c False list_update_swap)
    ultimately show ?thesis
      by blast
  qed
qed

subsection \<open>The logistic curve and the range of \<^verbatim>\<open>math.exp\<close>\<close>

text \<open>
  Over the reals the curve is strictly increasing. The doubles that the code returns
  are roundings of it, and nothing is said here about their order.
\<close>

lemma logistic_strict_mono:
  fixes m1 m2 :: real
  assumes "m1 < m2"
  shows "1 / (1 + exp (- m1 / 10)) < 1 / (1 + exp (- m2 / 10))"
proof -
  have "exp (- m2 / 10) < exp (- m1 / 10)"
    using assms by simp
  then have "1 + exp (- m2 / 10) < 1 + exp (- m1 / 10)"
    by simp
  moreover have "0 < 1 + exp (- m2 / 10)"
    by (simp add: add_pos_pos)
  ultimately show ?thesis
    by (simp add: frac_less2)
qed



subsection \<open>The scenario of the specification in exact arithmetic\<close>

text \<open>
  With \<open>k\<close> and the home advantage the real numbers \<open>0.05\<close> and \<open>2.2\<close> and every
  operation exact, the two games of the scenario give the decimals that the
  specification lists.
\<close>

lemma scenario_exact:
  "\<exists>r1 self1 r2 self2.
      play_game (RatingSystem_init (Some Map.empty) team_map 0.05 2.2) t1 ''A'' ''B'' 90 85 = Inr (r1, self1)
    \<and> gr_home_rating_before r1 = 0 \<and> gr_away_rating_before r1 = 0
    \<and> gr_expected_mov r1 = 2.2 \<and> gr_actual_mov r1 = 5 \<and> gr_delta_rating r1 = 0.14
    \<and> ratings self1 ''A'' = Some 0.14 \<and> ratings self1 ''B'' = Some (- 0.14)
    \<and> play_game self1 t2 ''B'' ''A'' 80 100 = Inr (r2, self2)
    \<and> gr_home_rating_before r2 = - 0.14 \<and> gr_away_rating_before r2 = 0.14
    \<and> gr_expected_mov r2 = 1.92 \<and> gr_actual_mov r2 = - 20 \<and> gr_delta_rating r2 = - 1.096
    \<and> ratings self2 ''B'' = Some (- 1.236) \<and> ratings self2 ''A'' = Some 1.236"
  by (simp add: play_game_closed_form RatingSystem_init_def dict_get_def expected_mov_def
        delta_rating_def)

section \<open>The claims of the specification\<close>

text \<open>
  Claim C1 reads the two assignments as facts about the dictionary after the call. A
  fresh engine with the default parameters and the game \<^verbatim>\<open>play_game("A", "A", 90, 85)\<close>
  shows that the home one can fail: the rating before is \<open>0\<close>, delta is \<open>0.14\<close>, and the
  rating of \<^verbatim>\<open>"A"\<close> afterwards is \<open>- 0.14\<close>, not \<open>0 + 0.14\<close>.
\<close>

theorem same_team_update:
  "\<not> isl (play_game (RatingSystem_init None None default_k default_home_adv) ''t'' ''A'' ''A'' 90 85)
   \<and> gr_home_rating_before
         (fst (projr (play_game (RatingSystem_init None None default_k default_home_adv) ''t'' ''A'' ''A'' 90 85)))
       = 0
   \<and> gr_delta_rating
         (fst (projr (play_game (RatingSystem_init None None default_k default_home_adv) ''t'' ''A'' ''A'' 90 85)))
       = 0.14
   \<and> ratings
         (snd (projr (play_game (RatingSystem_init None None default_k default_home_adv) ''t'' ''A'' ''A'' 90 85)))
         ''A''
       = Some (- 0.14)
   \<and> ratings
         (snd (projr (play_game (RatingSystem_init None None default_k default_home_adv) ''t'' ''A'' ''A'' 90 85)))
         ''A''
       \<noteq> Some (0 + 0.14)"
  by (simp add: play_game_closed_form RatingSystem_init_def default_k_def default_home_adv_def
        dict_get_def expected_mov_def delta_rating_def)

text \<open>
  Claim C1, amended. For every call \<^verbatim>\<open>play_game(home, away, home_score, away_score)\<close>,
  with the ratings before read with default \<open>0\<close>: the expected margin is
  \<open>home_rating_before + home_adv - away_rating_before\<close>, the actual margin is
  \<open>home_score - away_score\<close>, delta is \<open>k * (actual - expected)\<close>, and the dictionary is
  updated by assigning \<open>home_rating_before + delta\<close> to \<open>home\<close> and then
  \<open>away_rating_before - delta\<close> to \<open>away\<close>. Afterwards the rating of \<open>away\<close> is
  \<open>away_rating_before - delta\<close>, and the rating of \<open>home\<close> is
  \<open>home_rating_before + delta\<close> whenever \<open>home \<noteq> away\<close>.
\<close>

theorem play_game_update:
  fixes self :: RatingSystem and now home away :: string and home_score away_score :: int
  defines "home_rating_before \<equiv> dict_get (ratings self) home 0"
    and "away_rating_before \<equiv> dict_get (ratings self) away 0"
  defines "expected \<equiv> home_rating_before + home_adv self - away_rating_before"
    and "actual \<equiv> home_score - away_score"
  defines "delta \<equiv> k self * (real_of_int actual - expected)"
  shows "\<exists>r self'.
           play_game self now home away home_score away_score = Inr (r, self')
         \<and> gr_home_rating_before r = home_rating_before
         \<and> gr_away_rating_before r = away_rating_before
         \<and> gr_expected_mov r = expected
         \<and> gr_actual_mov r = actual
         \<and> gr_delta_rating r = delta
         \<and> ratings self' =
             (ratings self)(home \<mapsto> home_rating_before + delta, away \<mapsto> away_rating_before - delta)
         \<and> ratings self' away = Some (away_rating_before - delta)
         \<and> (home \<noteq> away \<longrightarrow> ratings self' home = Some (home_rating_before + delta))"
  unfolding home_rating_before_def away_rating_before_def expected_def actual_def delta_def
  by (simp add: play_game_closed_form expected_mov_def delta_rating_def)

text \<open>The statement at a game between two different teams.\<close>

theorem play_game_update_witness:
  "''A'' \<noteq> ''B'' \<and>
   (\<exists>r self'. play_game (RatingSystem_init None None (1/2) 1) ''t'' ''A'' ''B'' 4 1 = Inr (r, self')
      \<and> gr_delta_rating r = 1
      \<and> ratings self' ''A'' = Some 1 \<and> ratings self' ''B'' = Some (- 1))"
  using play_game_update [where self = "RatingSystem_init None None (1/2) 1" and now = "''t''"
      and home = "''A''" and away = "''B''" and home_score = 4 and away_score = 1]
  by (auto simp: RatingSystem_init_def dict_get_def)

text \<open>
  Claim C2 quantifies over all sequences of games. The one-game sequence
  \<^verbatim>\<open>play_game("A", "A", 90, 85)\<close> on a fresh engine with \<open>k = 0.05\<close> and home advantage
  \<open>2.2\<close> takes the sum of the ratings from \<open>0\<close> to \<open>- 5044031582654955 / 2 ^ 55\<close>
  (printed \<^verbatim>\<open>-0.13999999999999999\<close>), far more than the rounding of that game allows.
\<close>

theorem same_team_sum_doubles:
  "\<not> isl (play_games64 (RatingSystem_init None None (round64 0.05) (round64 2.2))
             [(''t'', ''A'', ''A'', 90, 85)])
   \<and> rating_sum (ratings (RatingSystem_init None None (round64 0.05) (round64 2.2))) = 0
   \<and> rating_sum (ratings (projr
         (play_games64 (RatingSystem_init None None (round64 0.05) (round64 2.2))
            [(''t'', ''A'', ''A'', 90, 85)])))
       = - (5044031582654955 / 2 ^ 55)
   \<and> sum_list (map rounding_allowance (game_history (projr
         (play_games64 (RatingSystem_init None None (round64 0.05) (round64 2.2))
            [(''t'', ''A'', ''A'', 90, 85)]))))
       < 5044031582654955 / 2 ^ 55"
  by (simp add: eval64 rating_sum_def rounding_allowance_def)

text \<open>
  Claim C2, amended. For any sequence of calls of \<^verbatim>\<open>play_game\<close> in which every game is
  between two different teams and in which every number computed is finite, on an
  engine in any state with finite ratings (its dictionary finite, as every Python
  dictionary is) and with any parameters, the sum of all ratings after the sequence
  equals the sum before it up to rounding: the two differ by at most the sum, over the games played, of
  \<open>2 powi (- 53) * (\<bar>home_rating_before + delta\<bar> + \<bar>away_rating_before - delta\<bar>)
  + 2 powi (- 1074)\<close>. (In exact arithmetic the two sums are equal, as \<open>play_games_sum\<close>
  shows.)
\<close>

theorem rating_sum_tolerance:
  assumes "finite (dom (ratings self))"
    and "\<forall>(now, home, away, home_score, away_score) \<in> set calls. home \<noteq> away"
    and "play_games64 self calls = Inr self'"
  shows "\<exists>rs. game_history self' = game_history self @ rs
           \<and> length rs = length calls
           \<and> \<bar>rating_sum (ratings self') - rating_sum (ratings self)\<bar>
               \<le> sum_list (map rounding_allowance rs)"
  using assms
proof (induction calls arbitrary: self)
  case Nil
  then show ?case
    by simp
next
  case (Cons c calls)
  obtain now home away hs as where c: "c = (now, home, away, hs, as)"
    by (cases c)
  with Cons.prems(2) have ne: "home \<noteq> away"
    and rest: "\<forall>(now, home, away, home_score, away_score) \<in> set calls. home \<noteq> away"
    by auto
  from Cons.prems(3) c obtain r s1 where
    step: "play_game64 self now home away hs as = Inr (r, s1)"
    and run: "play_games64 s1 calls = Inr self'"
    by (auto split: sum.splits)
  note one = play_game64_sum [OF step Cons.prems(1) ne]
  from Cons.IH [OF one(2) rest run] obtain rs where ih:
    "game_history self' = game_history s1 @ rs" "length rs = length calls"
    "\<bar>rating_sum (ratings self') - rating_sum (ratings s1)\<bar> \<le> sum_list (map rounding_allowance rs)"
    by blast
  have "game_history self' = game_history self @ (r # rs)"
    using ih(1) play_game64_InrD(2) [OF step] by simp
  moreover have "length (r # rs) = length (c # calls)"
    using ih(2) by simp
  moreover have "\<bar>rating_sum (ratings self') - rating_sum (ratings self)\<bar>
      \<le> sum_list (map rounding_allowance (r # rs))"
    using ih(3) one(1) by simp
  ultimately show ?case
    by blast
qed

text \<open>The game of \<open>ordinary_game_rounding\<close>, where the sum moves by \<open>3 / 2 ^ 55\<close>.\<close>

theorem rating_sum_tolerance_witness:
  "finite (dom (ratings (RatingSystem_init (Some [''A'' \<mapsto> 1]) None (round64 0.05) (round64 2.2))))
   \<and> ''A'' \<noteq> ''B''
   \<and> \<not> isl (play_games64 (RatingSystem_init (Some [''A'' \<mapsto> 1]) None (round64 0.05) (round64 2.2))
               [(''t'', ''A'', ''B'', 90, 85)])
   \<and> \<bar>rating_sum (ratings (projr
           (play_games64 (RatingSystem_init (Some [''A'' \<mapsto> 1]) None (round64 0.05) (round64 2.2))
              [(''t'', ''A'', ''B'', 90, 85)])))
        - rating_sum (ratings (RatingSystem_init (Some [''A'' \<mapsto> 1]) None (round64 0.05) (round64 2.2)))\<bar>
       \<le> sum_list (map rounding_allowance (game_history (projr
           (play_games64 (RatingSystem_init (Some [''A'' \<mapsto> 1]) None (round64 0.05) (round64 2.2))
              [(''t'', ''A'', ''B'', 90, 85)]))))"
proof -
  let ?s = "RatingSystem_init (Some [''A'' \<mapsto> 1]) None (round64 0.05) (round64 2.2)"
  let ?calls = "[(''t'', ''A'', ''B'', 90, 85)] :: game_call list"
  have fin: "finite (dom (ratings ?s))"
    by (simp add: RatingSystem_init_def)
  have ne: "\<forall>(now, home, away, home_score, away_score) \<in> set ?calls. home \<noteq> away"
    by simp
  have "\<not> isl (play_games64 ?s ?calls)"
    using ordinary_game_rounding by blast
  then obtain s' where run: "play_games64 ?s ?calls = Inr s'"
    by (cases "play_games64 ?s ?calls") simp_all
  have start: "game_history ?s = []"
    by (simp add: RatingSystem_init_def)
  from rating_sum_tolerance [OF fin ne run] start
  have "\<bar>rating_sum (ratings s') - rating_sum (ratings ?s)\<bar>
      \<le> sum_list (map rounding_allowance (game_history s'))"
    by auto
  with fin run show ?thesis
    by simp
qed

text \<open>
  Claim C3 states two equations for every record. In the record of
  \<^verbatim>\<open>play_game("A", "A", 90, 85)\<close> on a fresh default engine, which is also the entry
  appended to the log, the home rating before is \<open>0\<close> and delta is \<open>0.14\<close>, yet the home
  rating after is \<open>- 0.14\<close>.
\<close>

theorem same_team_record:
  "\<not> isl (play_game (RatingSystem_init None None default_k default_home_adv) ''t'' ''A'' ''A'' 90 85)
   \<and> game_history
         (snd (projr (play_game (RatingSystem_init None None default_k default_home_adv) ''t'' ''A'' ''A'' 90 85)))
       = [fst (projr (play_game (RatingSystem_init None None default_k default_home_adv) ''t'' ''A'' ''A'' 90 85))]
   \<and> gr_home_rating_before
         (fst (projr (play_game (RatingSystem_init None None default_k default_home_adv) ''t'' ''A'' ''A'' 90 85)))
       = 0
   \<and> gr_delta_rating
         (fst (projr (play_game (RatingSystem_init None None default_k default_home_adv) ''t'' ''A'' ''A'' 90 85)))
       = 0.14
   \<and> gr_home_rating_after
         (fst (projr (play_game (RatingSystem_init None None default_k default_home_adv) ''t'' ''A'' ''A'' 90 85)))
       = - 0.14"
  by (simp add: play_game_closed_form RatingSystem_init_def default_k_def default_home_adv_def
        dict_get_def expected_mov_def delta_rating_def)

text \<open>
  Claim C3, amended. Every record returned by \<^verbatim>\<open>play_game\<close>, which is the entry it
  appends to the log, satisfies
  \<open>away_rating_after = away_rating_before - delta_rating\<close> for all inputs and all engine
  states, and \<open>home_rating_after = home_rating_before + delta_rating\<close> whenever
  \<open>home \<noteq> away\<close>.
\<close>

theorem record_invariant:
  "\<exists>r self'.
      play_game self now home away home_score away_score = Inr (r, self')
    \<and> game_history self' = game_history self @ [r]
    \<and> gr_away_rating_after r = gr_away_rating_before r - gr_delta_rating r
    \<and> (home \<noteq> away \<longrightarrow> gr_home_rating_after r = gr_home_rating_before r + gr_delta_rating r)"
  by (simp add: play_game_closed_form)

text \<open>The statement at a game between two different teams.\<close>

theorem record_invariant_witness:
  "''A'' \<noteq> ''B'' \<and>
   (\<exists>r self'. play_game (RatingSystem_init None None (1/2) 1) ''t'' ''A'' ''B'' 4 1 = Inr (r, self')
      \<and> game_history self' = [r]
      \<and> gr_away_rating_after r = gr_away_rating_before r - gr_delta_rating r
      \<and> gr_home_rating_after r = gr_home_rating_before r + gr_delta_rating r)"
  using record_invariant [where self = "RatingSystem_init None None (1/2) 1" and now = "''t''"
      and home = "''A''" and away = "''B''" and home_score = 4 and away_score = 1]
  by (auto simp: RatingSystem_init_def)

text \<open>
  Claim C4 gives exact values. In doubles the first game computes \<open>0.05 * (5 - 2.2)\<close> as
  \<open>5044031582654955 / 2 ^ 55\<close>, printed \<^verbatim>\<open>0.13999999999999999\<close>, which is neither
  the number \<open>0.14\<close> nor the double nearest to it.
\<close>

theorem scenario_doubles_differ:
  "\<not> isl (play_game64 (RatingSystem_init (Some Map.empty) None (round64 0.05) (round64 2.2))
             ''t'' ''A'' ''B'' 90 85)
   \<and> gr_delta_rating (fst (projr
         (play_game64 (RatingSystem_init (Some Map.empty) None (round64 0.05) (round64 2.2))
            ''t'' ''A'' ''B'' 90 85)))
       = 5044031582654955 / 2 ^ 55
   \<and> gr_delta_rating (fst (projr
         (play_game64 (RatingSystem_init (Some Map.empty) None (round64 0.05) (round64 2.2))
            ''t'' ''A'' ''B'' 90 85)))
       \<noteq> 0.14
   \<and> gr_delta_rating (fst (projr
         (play_game64 (RatingSystem_init (Some Map.empty) None (round64 0.05) (round64 2.2))
            ''t'' ''A'' ''B'' 90 85)))
       \<noteq> round64 0.14"
  by (simp add: eval64)

text \<open>
  Claim C4, amended. Every decimal stands for the double nearest to it. On an engine
  built with an empty dictionary of initial ratings, \<open>k = 0.05\<close> and \<open>home_adv = 2.2\<close>,
  the game \<^verbatim>\<open>play_game("A", "B", 90, 85)\<close> has expected margin \<open>2.2\<close>, actual margin \<open>5\<close>
  and a delta one unit in the last place (\<open>2 powi (- 55)\<close>) below \<open>0.14\<close>, and leaves
  \<^verbatim>\<open>"A"\<close> at that delta and \<^verbatim>\<open>"B"\<close> at its negative; the game
  \<^verbatim>\<open>play_game("B", "A", 80, 100)\<close> that follows has an expected margin one unit in the
  last place (\<open>2 powi (- 52)\<close>) above \<open>1.92\<close>, actual margin \<open>- 20\<close> and delta \<open>- 1.096\<close>,
  and leaves \<^verbatim>\<open>"B"\<close> at \<open>- 1.236\<close> and \<^verbatim>\<open>"A"\<close> at \<open>1.236\<close>. This holds for any name
  mapping and any two clock readings.
\<close>

theorem scenario_A_B_doubles:
  "\<exists>r1 self1 r2 self2.
      play_game64 (RatingSystem_init (Some Map.empty) team_map (round64 0.05) (round64 2.2))
        t1 ''A'' ''B'' 90 85 = Inr (r1, self1)
    \<and> gr_home_rating_before r1 = 0 \<and> gr_away_rating_before r1 = 0
    \<and> gr_expected_mov r1 = round64 2.2 \<and> gr_actual_mov r1 = 5
    \<and> gr_delta_rating r1 = round64 0.14 - 2 powi (- 55)
    \<and> ratings self1 ''A'' = Some (round64 0.14 - 2 powi (- 55))
    \<and> ratings self1 ''B'' = Some (- (round64 0.14 - 2 powi (- 55)))
    \<and> play_game64 self1 t2 ''B'' ''A'' 80 100 = Inr (r2, self2)
    \<and> gr_home_rating_before r2 = - (round64 0.14 - 2 powi (- 55))
    \<and> gr_away_rating_before r2 = round64 0.14 - 2 powi (- 55)
    \<and> gr_expected_mov r2 = round64 1.92 + 2 powi (- 52) \<and> gr_actual_mov r2 = - 20
    \<and> gr_delta_rating r2 = - round64 1.096
    \<and> ratings self2 ''B'' = Some (- round64 1.236) \<and> ratings self2 ''A'' = Some (round64 1.236)"
  by (simp add: eval64)




text \<open>
  Claim C6 rebuilds an engine "from the same \<^verbatim>\<open>initialRatings\<close>". When that is the same
  non-empty dictionary object, the first engine has assigned into it: built on
  \<^verbatim>\<open>{"A": 2}\<close> with \<open>k = 1/4\<close> and home advantage \<open>0\<close>, the game A against B, 4 to 0,
  leaves the dictionary at \<^verbatim>\<open>{"A": 2.5, "B": -0.5}\<close>, and a second engine built on the
  same object and fed the logged game ends at \<^verbatim>\<open>{"A": 2.75, "B": -0.75}\<close>.
\<close>

theorem replay_shared_dictionary:
  "fst (projr (build_and_play [[''A'' \<mapsto> 2]] (Some 0) None (1/4) 0 [(''t1'', ''A'', ''B'', 4, 0)]))
     = [[''A'' \<mapsto> 5/2, ''B'' \<mapsto> - 1/2]]
   \<and> map logged_game (obj_game_history (snd (projr
        (build_and_play [[''A'' \<mapsto> 2]] (Some 0) None (1/4) 0 [(''t1'', ''A'', ''B'', 4, 0)]))))
     = [(''A'', ''B'', 4, 0)]
   \<and> fst (projr (build_and_play [[''A'' \<mapsto> 5/2, ''B'' \<mapsto> - 1/2]] (Some 0) None (1/4) 0
                   [(''t2'', ''A'', ''B'', 4, 0)]))
     = [[''A'' \<mapsto> 11/4, ''B'' \<mapsto> - 3/4]]
   \<and> [''A'' \<mapsto> 11/4, ''B'' \<mapsto> - 3/4] \<noteq> [''A'' \<mapsto> 5/2, ''B'' \<mapsto> - 1/2 :: real]"
proof -
  have ne: "[''A'' \<mapsto> 11/4, ''B'' \<mapsto> - 3/4] \<noteq> [''A'' \<mapsto> 5/2, ''B'' \<mapsto> - 1/2 :: real]"
  proof
    assume "[''A'' \<mapsto> 11/4, ''B'' \<mapsto> - 3/4] = [''A'' \<mapsto> 5/2, ''B'' \<mapsto> - 1/2 :: real]"
    then have "[''A'' \<mapsto> 11/4, ''B'' \<mapsto> - 3/4] ''A'' = [''A'' \<mapsto> 5/2, ''B'' \<mapsto> - 1/2 :: real] ''A''"
      by (rule arg_cong)
    then show False
      by simp
  qed
  then show ?thesis
    by (simp add: build_and_play_def RatingSystem_new_def play_game_obj_def deref_def
          play_game_closed_form Let_def dict_get_def expected_mov_def delta_rating_def
          logged_game_def)
qed

text \<open>
  Claim C6, amended. Let an engine be built from \<^verbatim>\<open>initial_ratings\<close>, \<open>kf\<close> and \<open>ha\<close>
  and fed any sequence of calls. A second engine built later, with the same \<open>kf\<close> and
  \<open>ha\<close> (and any name mapping), from a dictionary that at that moment holds what
  \<^verbatim>\<open>initial_ratings\<close> held when the first engine was built (a copy, a reloaded
  dictionary, or \<^verbatim>\<open>None\<close> when it was empty), and fed, in the order of the log and at any
  clock readings, the teams and scores of the entries in the first engine's log, ends
  with the dictionary of ratings that the first engine had after its run.
\<close>

theorem replay_equivalence:
  assumes "valid_ref st initial_ratings"
  shows "\<exists>st1 obj1.
           build_and_play st initial_ratings team_map kf ha calls = Inr (st1, obj1)
         \<and> (\<forall>later copy other_team_map replay.
               valid_ref later copy
             \<and> contents_of later copy = contents_of st initial_ratings
             \<and> map snd replay = map logged_game (obj_game_history obj1)
             \<longrightarrow> (\<exists>st2 obj2.
                    build_and_play later copy other_team_map kf ha replay = Inr (st2, obj2)
                  \<and> st2 ! ratings_ref obj2 = st1 ! ratings_ref obj1))"
proof -
  let ?d = "contents_of st initial_ratings"
  from build_and_play_by_value [OF assms, of team_map kf ha calls] obtain s1 st1 obj1 where
    run: "play_games (RatingSystem_init (Some ?d) team_map kf ha) calls = Inr s1"
    and built: "build_and_play st initial_ratings team_map kf ha calls = Inr (st1, obj1)"
    and final: "st1 ! ratings_ref obj1 = ratings s1"
    and hist: "obj_game_history obj1 = game_history s1"
    by blast
  have same: "ratings (RatingSystem_init (Some ?d) team_map kf ha) = ratings (RatingSystem_init (Some ?d) tm kf ha)"
    "k (RatingSystem_init (Some ?d) team_map kf ha) = k (RatingSystem_init (Some ?d) tm kf ha)"
    "home_adv (RatingSystem_init (Some ?d) team_map kf ha) = home_adv (RatingSystem_init (Some ?d) tm kf ha)"
    for tm
    by (simp_all add: RatingSystem_init_def)
  from play_games_two_runs [OF same refl, of calls team_map] run
  have log: "map logged_game (game_history s1) = map snd calls"
    by (auto simp: RatingSystem_init_def)
  have "\<exists>st2 obj2. build_and_play later copy other_team_map kf ha replay = Inr (st2, obj2)
          \<and> st2 ! ratings_ref obj2 = st1 ! ratings_ref obj1"
    if v: "valid_ref later copy" and c: "contents_of later copy = ?d"
      and r: "map snd replay = map logged_game (obj_game_history obj1)"
    for later copy other_team_map replay
  proof -
    from r hist log have games: "map snd calls = map snd replay"
      by simp
    from build_and_play_by_value [OF v, of other_team_map kf ha replay] c obtain s2 st2 obj2 where
      run2: "play_games (RatingSystem_init (Some ?d) other_team_map kf ha) replay = Inr s2"
      and built2: "build_and_play later copy other_team_map kf ha replay = Inr (st2, obj2)"
      and final2: "st2 ! ratings_ref obj2 = ratings s2"
      by auto
    from play_games_two_runs [OF same games, of other_team_map] run run2
    have "ratings s1 = ratings s2"
      by auto
    with built2 final final2 show ?thesis
      by simp
  qed
  with built show ?thesis
    by blast
qed

text \<open>
  Two logged games, replayed at other clock readings on an engine with a name mapping,
  built from a second dictionary with the initial contents.
\<close>

theorem replay_equivalence_witness:
  "valid_ref [[''C'' \<mapsto> 3]] (Some 0)
   \<and> (\<exists>st1 obj1.
         build_and_play [[''C'' \<mapsto> 3]] (Some 0) None (1/2) 1
           [(''t1'', ''A'', ''B'', 4, 1), (''t2'', ''B'', ''C'', 0, 2)] = Inr (st1, obj1)
       \<and> valid_ref (st1 @ [[''C'' \<mapsto> 3]]) (Some 1)
       \<and> contents_of (st1 @ [[''C'' \<mapsto> 3]]) (Some 1) = contents_of [[''C'' \<mapsto> 3]] (Some 0)
       \<and> map snd [(''t3'', ''A'', ''B'', 4, 1), (''t4'', ''B'', ''C'', 0, 2)]
           = map logged_game (obj_game_history obj1)
       \<and> (\<exists>st2 obj2.
             build_and_play (st1 @ [[''C'' \<mapsto> 3]]) (Some 1) (Some [''A'' \<mapsto> ''Adelaide'']) (1/2) 1
               [(''t3'', ''A'', ''B'', 4, 1), (''t4'', ''B'', ''C'', 0, 2)] = Inr (st2, obj2)
           \<and> st2 ! ratings_ref obj2 = st1 ! ratings_ref obj1))"
proof -
  let ?st = "[[''C'' \<mapsto> 3 :: real]]"
  let ?calls = "[(''t1'', ''A'', ''B'', 4, 1), (''t2'', ''B'', ''C'', 0, 2)] :: game_call list"
  let ?replay = "[(''t3'', ''A'', ''B'', 4, 1), (''t4'', ''B'', ''C'', 0, 2)] :: game_call list"
  have v: "valid_ref ?st (Some 0)"
    by (simp add: valid_ref_def)
  from replay_equivalence [OF v, of None "1/2" 1 ?calls] obtain st1 obj1 where
    run: "build_and_play ?st (Some 0) None (1/2) 1 ?calls = Inr (st1, obj1)"
    and again: "\<And>later copy other_team_map replay.
        valid_ref later copy \<Longrightarrow> contents_of later copy = contents_of ?st (Some 0)
        \<Longrightarrow> map snd replay = map logged_game (obj_game_history obj1)
        \<Longrightarrow> \<exists>st2 obj2. build_and_play later copy other_team_map (1/2) 1 replay = Inr (st2, obj2)
              \<and> st2 ! ratings_ref obj2 = st1 ! ratings_ref obj1"
    by blast
  from run have len: "length st1 = 1"
    and log: "map logged_game (obj_game_history obj1) = map snd ?replay"
    by (auto simp: build_and_play_def RatingSystem_new_def play_game_obj_def deref_def
          play_game_closed_form Let_def logged_game_def)
  have v2: "valid_ref (st1 @ ?st) (Some 1)"
    and c2: "contents_of (st1 @ ?st) (Some 1) = contents_of ?st (Some 0)"
    using len by (simp_all add: valid_ref_def contents_of_def nth_append)
  from again [OF v2 c2 log [symmetric], of "Some [''A'' \<mapsto> ''Adelaide'']"] v run v2 c2 log
  show ?thesis
    by auto
qed

text \<open>
  Claim C7 fixes the initial ratings, \<open>k\<close>, \<open>home_adv\<close> and the games of the two runs,
  but not the name mapping, which \<^verbatim>\<open>play_game\<close> writes into every record as
  \<^verbatim>\<open>home_team_full\<close> and \<^verbatim>\<open>away_team_full\<close>. Two default engines, one built without a
  name mapping and one with a name for \<^verbatim>\<open>"A"\<close>, log the same game at the same clock
  reading differently.
\<close>

theorem two_runs_team_mapping:
  "\<not> isl (play_games (RatingSystem_init None None default_k default_home_adv)
             [(''t'', ''A'', ''B'', 90, 85)])
   \<and> \<not> isl (play_games
               (RatingSystem_init None (Some [''A'' \<mapsto> ''Adelaide 36ers'']) default_k default_home_adv)
               [(''t'', ''A'', ''B'', 90, 85)])
   \<and> map gr_home_team_full
         (game_history (projr (play_games (RatingSystem_init None None default_k default_home_adv)
                                 [(''t'', ''A'', ''B'', 90, 85)])))
       = [''A'']
   \<and> map gr_home_team_full
         (game_history (projr (play_games
            (RatingSystem_init None (Some [''A'' \<mapsto> ''Adelaide 36ers'']) default_k default_home_adv)
            [(''t'', ''A'', ''B'', 90, 85)])))
       = [''Adelaide 36ers'']
   \<and> map without_timestamp
         (game_history (projr (play_games (RatingSystem_init None None default_k default_home_adv)
                                 [(''t'', ''A'', ''B'', 90, 85)])))
       \<noteq> map without_timestamp
           (game_history (projr (play_games
              (RatingSystem_init None (Some [''A'' \<mapsto> ''Adelaide 36ers'']) default_k default_home_adv)
              [(''t'', ''A'', ''B'', 90, 85)])))"
  by (simp add: play_game_closed_form RatingSystem_init_def dict_get_def without_timestamp_def)

text \<open>
  Two engines built on one non-empty dictionary object share it: the second engine's
  game starts from the ratings the first engine's game left, here \<open>2.5\<close> instead of
  \<open>2\<close> for the home team.
\<close>

lemma two_runs_shared_dictionary:
  "RatingSystem_new [[''A'' \<mapsto> 2]] (Some 0) None (1/4) 0
     = ([[''A'' \<mapsto> 2]],
        \<lparr> ratings_ref = 0, obj_team_mapping = Map.empty, obj_k = 1/4, obj_home_adv = 0,
          obj_game_history = [] \<rparr>)
   \<and> map gr_home_rating_before
         (obj_game_history (fst (snd (projr
            (play_interleaved [[''A'' \<mapsto> 2]]
               \<lparr> ratings_ref = 0, obj_team_mapping = Map.empty, obj_k = 1/4, obj_home_adv = 0,
                 obj_game_history = [] \<rparr>
               \<lparr> ratings_ref = 0, obj_team_mapping = Map.empty, obj_k = 1/4, obj_home_adv = 0,
                 obj_game_history = [] \<rparr>
               [(True, ''t'', ''A'', ''B'', 4, 0), (False, ''t'', ''A'', ''B'', 4, 0)])))))
       = [2]
   \<and> map gr_home_rating_before
         (obj_game_history (snd (snd (projr
            (play_interleaved [[''A'' \<mapsto> 2]]
               \<lparr> ratings_ref = 0, obj_team_mapping = Map.empty, obj_k = 1/4, obj_home_adv = 0,
                 obj_game_history = [] \<rparr>
               \<lparr> ratings_ref = 0, obj_team_mapping = Map.empty, obj_k = 1/4, obj_home_adv = 0,
                 obj_game_history = [] \<rparr>
               [(True, ''t'', ''A'', ''B'', 4, 0), (False, ''t'', ''A'', ''B'', 4, 0)])))))
       = [5/2]"
  by (simp add: RatingSystem_new_def play_game_obj_def deref_def play_game_closed_form Let_def
        dict_get_def expected_mov_def delta_rating_def)

text \<open>
  Claim C7, amended. Two engines, each with a dictionary of its own (not one object
  shared by both), built from the same initial ratings, \<open>k\<close> and \<open>home_adv\<close> and fed
  the same ordered sequence of games, in any interleaving of the two sequences, end with
  the same dictionary of ratings, and with logs that are equal except possibly in the
  time stamps and in the display names \<^verbatim>\<open>home_team_full\<close> and \<^verbatim>\<open>away_team_full\<close>; when
  the two engines were built with the same name mapping as well, the logs are equal
  except possibly in the time stamps.
\<close>

theorem determinism:
  fixes st loaded :: store and initial_ratings other_initial_ratings :: "nat option"
    and team_map other_team_map :: "(string \<rightharpoonup> string) option" and kf ha :: real
  defines "b1 \<equiv> RatingSystem_new st initial_ratings team_map kf ha"
  defines "b2 \<equiv> RatingSystem_new (fst b1 @ loaded) other_initial_ratings other_team_map kf ha"
  assumes v1: "valid_ref st initial_ratings"
    and v2: "valid_ref (fst b1 @ loaded) other_initial_ratings"
    and same_contents:
      "contents_of (fst b1 @ loaded) other_initial_ratings = contents_of st initial_ratings"
    and own: "ratings_ref (snd b1) \<noteq> ratings_ref (snd b2)"
    and games: "map snd (calls_of True calls) = map snd (calls_of False calls)"
  shows "\<exists>st' obj1 obj2.
           play_interleaved (fst b2) (snd b1) (snd b2) calls = Inr (st', obj1, obj2)
         \<and> st' ! ratings_ref obj1 = st' ! ratings_ref obj2
         \<and> map (without_names \<circ> without_timestamp) (obj_game_history obj1)
             = map (without_names \<circ> without_timestamp) (obj_game_history obj2)
         \<and> (team_map = other_team_map
              \<longrightarrow> map without_timestamp (obj_game_history obj1)
                    = map without_timestamp (obj_game_history obj2))"
proof -
  let ?d = "contents_of st initial_ratings"
  let ?s = "RatingSystem_init (Some ?d) team_map kf ha"
  let ?t = "RatingSystem_init (Some ?d) other_team_map kf ha"
  let ?r1 = "ratings_ref (snd b1)" and ?r2 = "ratings_ref (snd b2)"
  have d1: "deref (fst b1) (snd b1) = ?s" and r1: "?r1 < length (fst b1)"
    unfolding b1_def using deref_new [OF v1] by simp_all
  have d2: "deref (fst b2) (snd b2) = ?t" and r2: "?r2 < length (fst b2)"
    unfolding b2_def using deref_new [OF v2] same_contents by simp_all
  have ext: "\<exists>more. fst b2 = fst b1 @ more"
    unfolding b2_def by (simp add: RatingSystem_new_def Let_def)
  then have r1': "?r1 < length (fst b2)" and d1': "deref (fst b2) (snd b1) = ?s"
    using r1 d1 by (auto simp: deref_def nth_append)
  from play_interleaved_by_value [OF r1' r2 own, of calls] d1' d2 obtain s1 s2 where
    run1: "play_games ?s (calls_of True calls) = Inr s1"
    and run2: "play_games ?t (calls_of False calls) = Inr s2"
    and both: "play_interleaved (fst b2) (snd b1) (snd b2) calls
        = Inr ((fst b2)[?r1 := ratings s1, ?r2 := ratings s2],
               snd b1\<lparr> obj_game_history := game_history s1 \<rparr>,
               snd b2\<lparr> obj_game_history := game_history s2 \<rparr>)"
    by auto
  have same: "ratings ?s = ratings ?t" "k ?s = k ?t" "home_adv ?s = home_adv ?t"
    by (simp_all add: RatingSystem_init_def)
  have start: "game_history ?s = []" "game_history ?t = []"
    by (simp_all add: RatingSystem_init_def)
  have maps: "team_map = other_team_map \<Longrightarrow> team_mapping ?s = team_mapping ?t"
    by simp
  from play_games_two_runs [OF same games] run1 run2 obtain rs rs' where
    "ratings s1 = ratings s2"
    "game_history s1 = game_history ?s @ rs" "game_history s2 = game_history ?t @ rs'"
    "map (without_names \<circ> without_timestamp) rs = map (without_names \<circ> without_timestamp) rs'"
    "team_mapping ?s = team_mapping ?t \<longrightarrow> map without_timestamp rs = map without_timestamp rs'"
    by auto
  with start maps both r1' r2 own show ?thesis
    by auto
qed

text \<open>
  The same game at two clock readings, on two engines with the same name mapping, each
  built on its own dictionary.
\<close>

theorem determinism_witness:
  "valid_ref [[''C'' \<mapsto> 3]] (Some 0)
   \<and> valid_ref (fst (RatingSystem_new [[''C'' \<mapsto> 3]] (Some 0) (Some [''A'' \<mapsto> ''Adelaide'']) (1/2) 1)
                  @ [[''C'' \<mapsto> 3]]) (Some 1)
   \<and> contents_of (fst (RatingSystem_new [[''C'' \<mapsto> 3]] (Some 0) (Some [''A'' \<mapsto> ''Adelaide'']) (1/2) 1)
                     @ [[''C'' \<mapsto> 3]]) (Some 1)
       = contents_of [[''C'' \<mapsto> 3]] (Some 0)
   \<and> ratings_ref (snd (RatingSystem_new [[''C'' \<mapsto> 3]] (Some 0) (Some [''A'' \<mapsto> ''Adelaide'']) (1/2) 1))
       \<noteq> ratings_ref (snd (RatingSystem_new
             (fst (RatingSystem_new [[''C'' \<mapsto> 3]] (Some 0) (Some [''A'' \<mapsto> ''Adelaide'']) (1/2) 1)
                @ [[''C'' \<mapsto> 3]])
             (Some 1) (Some [''A'' \<mapsto> ''Adelaide'']) (1/2) 1))
   \<and> map snd (calls_of True [(True, ''t1'', ''A'', ''C'', 4, 1), (False, ''t2'', ''A'', ''C'', 4, 1)])
       = map snd (calls_of False [(True, ''t1'', ''A'', ''C'', 4, 1), (False, ''t2'', ''A'', ''C'', 4, 1)])
   \<and> (\<exists>st' obj1 obj2.
         play_interleaved
           (fst (RatingSystem_new
             (fst (RatingSystem_new [[''C'' \<mapsto> 3]] (Some 0) (Some [''A'' \<mapsto> ''Adelaide'']) (1/2) 1)
                @ [[''C'' \<mapsto> 3]])
             (Some 1) (Some [''A'' \<mapsto> ''Adelaide'']) (1/2) 1))
           (snd (RatingSystem_new [[''C'' \<mapsto> 3]] (Some 0) (Some [''A'' \<mapsto> ''Adelaide'']) (1/2) 1))
           (snd (RatingSystem_new
             (fst (RatingSystem_new [[''C'' \<mapsto> 3]] (Some 0) (Some [''A'' \<mapsto> ''Adelaide'']) (1/2) 1)
                @ [[''C'' \<mapsto> 3]])
             (Some 1) (Some [''A'' \<mapsto> ''Adelaide'']) (1/2) 1))
           [(True, ''t1'', ''A'', ''C'', 4, 1), (False, ''t2'', ''A'', ''C'', 4, 1)]
         = Inr (st', obj1, obj2)
       \<and> st' ! ratings_ref obj1 = st' ! ratings_ref obj2
       \<and> map without_timestamp (obj_game_history obj1)
           = map without_timestamp (obj_game_history obj2))"
proof -
  let ?st = "[[''C'' \<mapsto> 3 :: real]]"
  let ?tm = "Some [''A'' \<mapsto> ''Adelaide'']"
  let ?calls = "[(True, ''t1'', ''A'', ''C'', 4, 1), (False, ''t2'', ''A'', ''C'', 4, 1)]
                  :: (bool \<times> game_call) list"
  let ?b1 = "RatingSystem_new ?st (Some 0) ?tm (1/2) 1"
  let ?b2 = "RatingSystem_new (fst ?b1 @ ?st) (Some 1) ?tm (1/2) 1"
  have v1: "valid_ref ?st (Some 0)"
    by (simp add: valid_ref_def)
  have v2: "valid_ref (fst ?b1 @ ?st) (Some 1)"
    by (simp add: valid_ref_def RatingSystem_new_def)
  have c: "contents_of (fst ?b1 @ ?st) (Some 1) = contents_of ?st (Some 0)"
    by (simp add: contents_of_def RatingSystem_new_def)
  have own: "ratings_ref (snd ?b1) \<noteq> ratings_ref (snd ?b2)"
    by (simp add: RatingSystem_new_def)
  have games: "map snd (calls_of True ?calls) = map snd (calls_of False ?calls)"
    by (simp add: calls_of_def)
  from determinism [OF v1 v2 c own games] v1 v2 c own games show ?thesis
    by blast
qed



text \<open>
  Claim C9. \<^verbatim>\<open>get_team_rating\<close> returns the rating stored for the team, or \<open>0\<close> when
  the team has no entry, and leaves the engine as it was; it has no failing branch.
  \<^verbatim>\<open>play_game\<close> returns a record for every state and every pair of teams, takes the
  rating of a team without an entry as \<open>0\<close>, and leaves an entry for both teams in the
  dictionary.
\<close>

theorem unknown_ids_default:
  "get_team_rating self team = ((case ratings self team of None \<Rightarrow> 0 | Some rating \<Rightarrow> rating), self)
   \<and> (ratings self team = None \<longrightarrow> fst (get_team_rating self team) = 0)
   \<and> (\<exists>r self'.
         play_game self now home away home_score away_score = Inr (r, self')
       \<and> gr_home_rating_before r = (case ratings self home of None \<Rightarrow> 0 | Some rating \<Rightarrow> rating)
       \<and> gr_away_rating_before r = (case ratings self away of None \<Rightarrow> 0 | Some rating \<Rightarrow> rating)
       \<and> (ratings self home = None \<longrightarrow> gr_home_rating_before r = 0)
       \<and> (ratings self away = None \<longrightarrow> gr_away_rating_before r = 0)
       \<and> dom (ratings self') = dom (ratings self) \<union> {home, away})"
  by (auto simp: get_team_rating_def play_game_closed_form dict_get_def)

text \<open>A fresh engine, in which neither team has an entry.\<close>

theorem unknown_ids_default_witness:
  "ratings (RatingSystem_init None None (1/2) 1) ''A'' = None
   \<and> ratings (RatingSystem_init None None (1/2) 1) ''B'' = None
   \<and> get_team_rating (RatingSystem_init None None (1/2) 1) ''A'' = (0, RatingSystem_init None None (1/2) 1)
   \<and> (\<exists>r self'.
         play_game (RatingSystem_init None None (1/2) 1) ''t'' ''A'' ''B'' 4 1 = Inr (r, self')
       \<and> gr_home_rating_before r = 0 \<and> gr_away_rating_before r = 0
       \<and> dom (ratings self') = {''A'', ''B''})"
proof -
  let ?s = "RatingSystem_init None None (1/2) 1"
  have unseen: "ratings ?s ''A'' = None" "ratings ?s ''B'' = None" "dom (ratings ?s) = {}"
    by (simp_all add: RatingSystem_init_def)
  from unknown_ids_default [where self = ?s and team = "''A''" and now = "''t''" and home = "''A''"
      and away = "''B''" and home_score = 4 and away_score = 1] unseen
  show ?thesis
    by auto
qed

text \<open>
  Claim C10 says that the rating after a game of \<open>x\<close> against itself is not the rating
  before. With home advantage \<open>2\<close> and the score 90 to 88 delta is zero, and the rating of
  \<^verbatim>\<open>"A"\<close>, \<open>0\<close> before the game, is \<open>0\<close> after it.
\<close>

theorem self_game_no_change:
  "\<not> isl (play_game (RatingSystem_init None None default_k 2) ''t'' ''A'' ''A'' 90 88)
   \<and> dict_get (ratings (RatingSystem_init None None default_k 2)) ''A'' 0 = 0
   \<and> gr_delta_rating
         (fst (projr (play_game (RatingSystem_init None None default_k 2) ''t'' ''A'' ''A'' 90 88)))
       = 0
   \<and> ratings (snd (projr (play_game (RatingSystem_init None None default_k 2) ''t'' ''A'' ''A'' 90 88)))
         ''A''
       = Some 0"
  by (simp add: play_game_closed_form RatingSystem_init_def dict_get_def expected_mov_def
        delta_rating_def)

text \<open>
  Claim C10, amended. For a game of a team \<open>x\<close> against itself, with \<open>rating\<close> its rating
  before (\<open>0\<close> without an entry) and delta the value the call computes,
  \<open>k * ((home_score - away_score) - (rating + home_adv - rating))\<close>: the assignment for
  the away side replaces the one for the home side, so the rating of \<open>x\<close> afterwards is
  \<open>rating - delta\<close> and no other entry of the dictionary changes; the record has both
  ratings before equal to \<open>rating\<close> and both ratings after equal to \<open>rating - delta\<close>.
\<close>

theorem self_game:
  fixes self :: RatingSystem and now x :: string and home_score away_score :: int
  defines "rating \<equiv> dict_get (ratings self) x 0"
  defines "expected \<equiv> rating + home_adv self - rating"
  defines "delta \<equiv> k self * (real_of_int (home_score - away_score) - expected)"
  shows "\<exists>r self'.
           play_game self now x x home_score away_score = Inr (r, self')
         \<and> gr_expected_mov r = expected
         \<and> gr_delta_rating r = delta
         \<and> ratings self' = (ratings self)(x \<mapsto> rating - delta)
         \<and> ratings self' x = Some (rating - delta)
         \<and> gr_home_rating_before r = rating \<and> gr_away_rating_before r = rating
         \<and> gr_home_rating_after r = rating - delta \<and> gr_away_rating_after r = rating - delta"
  unfolding rating_def expected_def delta_def
  by (simp add: play_game_closed_form expected_mov_def delta_rating_def)

end
